theory Spec2Isabelle
  imports Complex_Main
begin

section \<open>JavaScript strings\<close>

text \<open>
  A JavaScript string is a sequence of UTF-16 code units; \<open>length\<close>, \<open>slice\<close> and
  \<open>includes\<close> all count code units. The messages of the application are Chinese, so
  they are written here by their code units.
\<close>

type_synonym jsstring = "nat list"

definition ascii :: "string \<Rightarrow> jsstring" where
  "ascii s = map of_char s"

text \<open>\<open>s.slice(start)\<close>: a negative start counts from the end, clamped to the string.\<close>

definition jsSlice :: "int \<Rightarrow> 'a list \<Rightarrow> 'a list" where
  "jsSlice start s =
     (let len = int (length s);
          from = (if start < 0 then max (len + start) 0 else min start len)
      in drop (nat from) s)"

text \<open>\<open>parts.join(sep)\<close>.\<close>

fun jsJoin :: "jsstring \<Rightarrow> jsstring list \<Rightarrow> jsstring" where
  "jsJoin sep [] = []"
| "jsJoin sep [x] = x"
| "jsJoin sep (x # y # ys) = x @ sep @ jsJoin sep (y # ys)"

text \<open>\<open>s.includes(pat)\<close>: \<open>pat\<close> occurs in \<open>s\<close> as a contiguous run.\<close>

fun jsIncludes :: "jsstring \<Rightarrow> jsstring \<Rightarrow> bool" where
  "jsIncludes [] pat = (pat = [])"
| "jsIncludes (c # cs) pat = (take (length pat) (c # cs) = pat \<or> jsIncludes cs pat)"

text \<open>Decimal rendering of a non-negative integer, as a template literal does it.\<close>

fun jsNumStr :: "nat \<Rightarrow> jsstring" where
  "jsNumStr n = (if n < 10 then [48 + n] else jsNumStr (n div 10) @ [48 + n mod 10])"

declare jsNumStr.simps [simp del]

text \<open>\<open>s.trim()\<close> removes white space and line terminators at both ends.\<close>

definition isWhiteSpace :: "nat \<Rightarrow> bool" where
  "isWhiteSpace c =
     (c \<in> {0x9, 0xA, 0xB, 0xC, 0xD, 0x20, 0xA0, 0x1680, 0x2028, 0x2029, 0x202F, 0x205F,
            0x3000, 0xFEFF}
      \<or> (0x2000 \<le> c \<and> c \<le> 0x200A))"

definition jsTrim :: "jsstring \<Rightarrow> jsstring" where
  "jsTrim s = rev (dropWhile isWhiteSpace (rev (dropWhile isWhiteSpace s)))"

section \<open>Data model\<close>

text \<open>
  The audio clock and the duration of a decoded buffer are JavaScript numbers; they are
  taken as real numbers, so the rounding of double arithmetic is not part of the model.
\<close>

record AudioBuffer =
  duration :: real

record StorySegment =
  index :: nat
  text' :: jsstring
  audioBuffer :: "AudioBuffer option"

record AudioStory =
  totalSegmentsEstimate :: nat
  outline :: "jsstring list"
  segments :: "StorySegment list"

text \<open>
  The route details are the object that the route planner hands over
  (\<open>RoutePlanner.tsx\<close>, the call of \<open>onRouteFound\<close>); its field \<open>duration\<close>, the
  human-readable duration, is \<open>durationText\<close> here.
\<close>

record RouteDetails =
  startAddress :: jsstring
  endAddress :: jsstring
  distance :: jsstring
  durationText :: jsstring
  durationSeconds :: nat
  travelMode :: jsstring
  voiceName :: jsstring
  storyStyle :: jsstring

text \<open>
  Modelled from the spec: the enum \<open>AppState\<close> is declared in \<open>types.ts\<close>, which is
  not among the sources. The spec calls it the app readiness state (4.2) with a pre-start
  state (7). Its members are the ones the code names, and \<open>stateNum\<close> gives them the
  order that the comparisons in \<open>App.tsx\<close> and \<open>RoutePlanner.tsx\<close> rely on: the
  planner is locked above \<open>ROUTE_CONFIRMED\<close>, hidden above
  \<open>GENERATING_INITIAL_SEGMENT\<close>, and the player is shown from \<open>READY_TO_PLAY\<close> on.
\<close>

datatype AppState = PLANNING | ROUTE_CONFIRMED | GENERATING_INITIAL_SEGMENT | READY_TO_PLAY

fun stateNum :: "AppState \<Rightarrow> nat" where
  "stateNum PLANNING = 0"
| "stateNum ROUTE_CONFIRMED = 1"
| "stateNum GENERATING_INITIAL_SEGMENT = 2"
| "stateNum READY_TO_PLAY = 3"

text \<open>
  The state of the component \<open>App\<close>: its \<open>useState\<close> cells and the ref
  \<open>isGeneratingRef\<close>. The loading message and the map-script error play no part in
  scheduling and are left out.
\<close>

record App =
  appState :: AppState
  route :: "RouteDetails option"
  story :: "AudioStory option"
  generationError :: "jsstring option"
  isGeneratingRef :: bool
  isBackgroundGenerating :: bool
  currentPlayingIndex :: nat

section \<open>The lookahead scheduler\<close>

text \<open>
  The effect of \<open>App.tsx\<close>, lines 66 to 74. Its result is the index it passes to
  \<open>generateNextSegment\<close>, or \<open>None\<close> when it makes no call.
\<close>

definition schedulerEffect :: "App \<Rightarrow> nat option" where
  "schedulerEffect a =
     (case story a of
        None \<Rightarrow> None
      | Some st \<Rightarrow>
          if route a = None \<or> stateNum (appState a) < stateNum READY_TO_PLAY then None
          else
            let totalGenerated = length (segments st);
                neededBufferIndex = currentPlayingIndex a + 3
            in if totalGenerated < neededBufferIndex
                  \<and> totalGenerated < totalSegmentsEstimate st
                  \<and> \<not> isGeneratingRef a
               then Some (totalGenerated + 1)
               else None)"

text \<open>Sample values: a route, a decoded buffer, and a story of \<open>n\<close> stored segments.\<close>

definition sampleRoute :: RouteDetails where
  "sampleRoute =
     \<lparr> startAddress = ascii ''A'', endAddress = ascii ''B'', distance = ascii ''9 km'',
       durationText = ascii ''10 min'', durationSeconds = 600,
       travelMode = ascii ''WALKING'', voiceName = ascii ''Kore'',
       storyStyle = ascii ''NOIR'' \<rparr>"

definition sampleAudio :: AudioBuffer where
  "sampleAudio = \<lparr> duration = 60 \<rparr>"

definition sampleSegment :: "nat \<Rightarrow> StorySegment" where
  "sampleSegment i = \<lparr> index = i, text' = ascii ''x'', audioBuffer = Some sampleAudio \<rparr>"

definition sampleStory :: "nat \<Rightarrow> AudioStory" where
  "sampleStory n =
     \<lparr> totalSegmentsEstimate = 10, outline = [], segments = map sampleSegment [1..<Suc n] \<rparr>"

definition sampleApp :: "AppState \<Rightarrow> nat \<Rightarrow> nat \<Rightarrow> App" where
  "sampleApp st n playing =
     \<lparr> appState = st, route = Some sampleRoute, story = Some (sampleStory n),
       generationError = None, isGeneratingRef = False, isBackgroundGenerating = False,
       currentPlayingIndex = playing \<rparr>"

section \<open>The segment store\<close>

text \<open>
  \<open>array.sort(compare)\<close> is stable and orders by the sign of the comparison; insertion
  from the right, with an element placed before the first one it does not exceed, is such
  a sort.
\<close>

fun insertBy :: "('a \<Rightarrow> 'a \<Rightarrow> int) \<Rightarrow> 'a \<Rightarrow> 'a list \<Rightarrow> 'a list" where
  "insertBy cmp x [] = [x]"
| "insertBy cmp x (y # ys) = (if cmp x y \<le> 0 then x # y # ys else y # insertBy cmp x ys)"

fun jsSort :: "('a \<Rightarrow> 'a \<Rightarrow> int) \<Rightarrow> 'a list \<Rightarrow> 'a list" where
  "jsSort cmp [] = []"
| "jsSort cmp (x # xs) = insertBy cmp x (jsSort cmp xs)"

text \<open>The comparison \<open>(a, b) => a.index - b.index\<close>.\<close>

definition byIndex :: "StorySegment \<Rightarrow> StorySegment \<Rightarrow> int" where
  "byIndex a b = int (index a) - int (index b)"

text \<open>
  The updater handed to \<open>setStory\<close> in \<open>generateNextSegment\<close> (\<open>App.tsx\<close>, lines
  101 to 108): \<open>idx\<close> is the index the invocation was called with, \<open>segmentData\<close> the
  result of the text stage and \<open>audio\<close> the result of the audio stage.
\<close>

definition insertSegment ::
  "nat \<Rightarrow> StorySegment \<Rightarrow> AudioBuffer \<Rightarrow> AudioStory option \<Rightarrow> AudioStory option" where
  "insertSegment idx segmentData audio prev =
     (case prev of
        None \<Rightarrow> None
      | Some p \<Rightarrow>
          if list_ex (\<lambda>s. index s = idx) (segments p) then Some p
          else Some (p\<lparr> segments :=
                 jsSort byIndex (segments p @ [segmentData\<lparr> audioBuffer := Some audio \<rparr>]) \<rparr>))"

text \<open>The store is sorted by index and no index occurs twice.\<close>

definition storeOrdered :: "StorySegment list \<Rightarrow> bool" where
  "storeOrdered segs = (sorted (map index segs) \<and> distinct (map index segs))"

text \<open>
  A run of insertions into a story: each entry is a finished generation, with the index it
  was requested for and the two results.
\<close>

fun insertAll ::
  "(nat \<times> StorySegment \<times> AudioBuffer) list \<Rightarrow> AudioStory option \<Rightarrow> AudioStory option" where
  "insertAll [] prev = prev"
| "insertAll ((idx, segmentData, audio) # rest) prev =
     insertAll rest (insertSegment idx segmentData audio prev)"

section \<open>External calls and timeouts\<close>

text \<open>
  A call of a collaborator settles some milliseconds after it was made, with a value or
  with an error, or never settles. An error is kept as its message.
\<close>

datatype 'a settle = Resolves nat 'a | Rejects nat jsstring | Pending

text \<open>
  \<open>withTimeout\<close> (\<open>App.tsx\<close>, lines 21 to 30) races the call against a timer of
  \<open>ms\<close> milliseconds. A call that settles no later than the deadline wins: its
  handler runs first and clears the timer.
\<close>

definition withTimeout :: "'a settle \<Rightarrow> nat \<Rightarrow> jsstring \<Rightarrow> jsstring + 'a" where
  "withTimeout promise ms errorMsg =
     (case promise of
        Resolves t val \<Rightarrow> if t \<le> ms then Inr val else Inl errorMsg
      | Rejects t e \<Rightarrow> if t \<le> ms then Inl e else Inl errorMsg
      | Pending \<Rightarrow> Inl errorMsg)"

section \<open>The text stage\<close>

text \<open>
  The prompt of \<open>generateSegment\<close> is a template literal; it is kept as the values
  put into its holes. \<open>promptContext\<close> is the hole of \<open>contextPrompt\<close>: \<open>None\<close> for
  the empty string of the first segment, \<open>Some t\<close> for the recap text around \<open>t\<close>.
  The style instruction is a function of the style tag alone.
\<close>

record Prompt =
  promptStart :: jsstring
  promptEnd :: jsstring
  promptIndex :: nat
  promptTotal :: nat
  promptStyle :: jsstring
  promptOutline :: jsstring
  promptContext :: "jsstring option"

definition contextPrompt :: "nat \<Rightarrow> jsstring \<Rightarrow> jsstring option" where
  "contextPrompt segmentIndex previousContext =
     (let isFirst = (segmentIndex = 1)
      in if \<not> isFirst then Some (jsSlice (- 1000) previousContext) else None)"

definition segmentPrompt ::
  "RouteDetails \<Rightarrow> nat \<Rightarrow> nat \<Rightarrow> jsstring \<Rightarrow> jsstring \<Rightarrow> Prompt" where
  "segmentPrompt r segmentIndex totalEst segmentOutline previousContext =
     \<lparr> promptStart = startAddress r, promptEnd = endAddress r,
       promptIndex = segmentIndex, promptTotal = totalEst,
       promptStyle = storyStyle r, promptOutline = segmentOutline,
       promptContext = contextPrompt segmentIndex previousContext \<rparr>"

definition noTextMsg :: jsstring where
  "noTextMsg = [0x7121, 0x6cd5, 0x751f, 0x6210, 0x7ae0, 0x7bc0, 0x6587, 0x5b57, 0x3002]"

text \<open>
  \<open>generateSegment\<close>: \<open>model\<close> is the text-generation collaborator, giving for a
  prompt the \<open>text\<close> of its response (which may be missing).
\<close>

definition generateSegment ::
  "(Prompt \<Rightarrow> jsstring option settle) \<Rightarrow> RouteDetails \<Rightarrow> nat \<Rightarrow> nat \<Rightarrow> jsstring \<Rightarrow> jsstring
     \<Rightarrow> StorySegment settle" where
  "generateSegment model r segmentIndex totalEst segmentOutline previousContext =
     (case model (segmentPrompt r segmentIndex totalEst segmentOutline previousContext) of
        Resolves t response \<Rightarrow>
          (case map_option jsTrim response of
             None \<Rightarrow> Rejects t noTextMsg
           | Some [] \<Rightarrow> Rejects t noTextMsg
           | Some (c # cs) \<Rightarrow>
               Resolves t \<lparr> index = segmentIndex, text' = c # cs, audioBuffer = None \<rparr>)
      | Rejects t e \<Rightarrow> Rejects t e
      | Pending \<Rightarrow> Pending)"

section \<open>The generation pipeline\<close>

text \<open>
  What the surroundings do during one run of a pipeline: the text model, the speech stage
  (\<open>generateSegmentAudio\<close> as a whole: synthesis and decoding), the outline stage
  (\<open>generateStoryOutline\<close> as a whole), and whether constructing and closing the
  temporary audio context throw (\<open>Some\<close> message) or not.
\<close>

record Env =
  model :: "Prompt \<Rightarrow> jsstring option settle"
  speech :: "jsstring \<Rightarrow> AudioBuffer settle"
  outliner :: "RouteDetails \<Rightarrow> nat \<Rightarrow> jsstring list settle"
  newContext :: "jsstring option"
  closeContext :: "jsstring option"

text \<open>An invocation of \<open>generateNextSegment\<close> in flight: its argument and its closure.\<close>

record Invocation =
  invIndex :: nat
  invRoute :: RouteDetails
  invStory :: AudioStory

definition segmentTimeoutMsg :: "nat \<Rightarrow> jsstring" where
  "segmentTimeoutMsg idx =
     [0x7b2c, 0x20] @ jsNumStr idx @ [0x20, 0x7ae0, 0x7bc0, 0x751f, 0x6210, 0x903e, 0x6642]"

definition audioTimeoutMsg :: "nat \<Rightarrow> jsstring" where
  "audioTimeoutMsg idx =
     [0x7b2c, 0x20] @ jsNumStr idx
       @ [0x20, 0x7ae0, 0x7bc0, 0x8a9e, 0x97f3, 0x751f, 0x6210, 0x903e, 0x6642]"

definition defaultBeat :: jsstring where
  "defaultBeat =
     [0x7e7c, 0x7e8c, 0x65c5, 0x7a0b, 0xff0c, 0x5c07, 0x60c5, 0x7bc0, 0x5f15, 0x5411, 0x7d42,
      0x9ede, 0x3002]"

text \<open>Line 83: the texts so far, joined by a space, cut to their last 3000 code units.\<close>

definition allPreviousText :: "StorySegment list \<Rightarrow> jsstring" where
  "allPreviousText segs = jsSlice (- 3000) (jsJoin [0x20] (map text' segs))"

text \<open>Line 84: \<open>story.outline[index - 1] || default\<close>.\<close>

definition segmentOutlineOf :: "jsstring list \<Rightarrow> nat \<Rightarrow> jsstring" where
  "segmentOutlineOf ol idx =
     (if 1 \<le> idx \<and> idx - 1 < length ol \<and> ol ! (idx - 1) \<noteq> [] then ol ! (idx - 1)
      else defaultBeat)"

text \<open>
  The two awaited stages of \<open>generateNextSegment\<close>, each under its timeout: the text
  stage (lines 86 to 90) and the audio stage (lines 94 to 98).
\<close>

definition textStage :: "Env \<Rightarrow> Invocation \<Rightarrow> jsstring + StorySegment" where
  "textStage env call =
     (let idx = invIndex call; st = invStory call;
          previous = allPreviousText (segments st);
          segmentOutline = segmentOutlineOf (outline st) idx
      in withTimeout
           (generateSegment (model env) (invRoute call) idx (totalSegmentsEstimate st)
              segmentOutline previous)
           60000 (segmentTimeoutMsg idx))"

definition audioStage :: "Env \<Rightarrow> Invocation \<Rightarrow> StorySegment \<Rightarrow> jsstring + AudioBuffer" where
  "audioStage env call segmentData =
     withTimeout (speech env (text' segmentData)) 100000 (audioTimeoutMsg (invIndex call))"

text \<open>
  The body of the \<open>try\<close> block of \<open>generateNextSegment\<close> up to the call of
  \<open>setStory\<close>: the error caught, or the results of both stages.
\<close>

definition pipelineResult :: "Env \<Rightarrow> Invocation \<Rightarrow> jsstring + (StorySegment \<times> AudioBuffer)" where
  "pipelineResult env call =
     (case textStage env call of
        Inl e \<Rightarrow> Inl e
      | Inr segmentData \<Rightarrow>
          (case newContext env of
             Some e \<Rightarrow> Inl e
           | None \<Rightarrow>
               (case audioStage env call segmentData of
                  Inl e \<Rightarrow> Inl e
                | Inr audio \<Rightarrow>
                    (case closeContext env of
                       Some e \<Rightarrow> Inl e
                     | None \<Rightarrow> Inr (segmentData, audio)))))"

text \<open>
  \<open>generateNextSegment\<close> up to its first \<open>await\<close>: the guard of line 77, then the
  flag is taken. The result is the new state and the invocation now in flight, if any.
\<close>

definition generateNextSegment_begin :: "nat \<Rightarrow> App \<Rightarrow> App \<times> Invocation option" where
  "generateNextSegment_begin idx a =
     (case (route a, story a) of
        (Some r, Some st) \<Rightarrow>
          if isGeneratingRef a then (a, None)
          else (a\<lparr> isGeneratingRef := True, isBackgroundGenerating := True \<rparr>,
                Some \<lparr> invIndex = idx, invRoute = r, invStory = st \<rparr>)
      | _ \<Rightarrow> (a, None))"

text \<open>
  The rest of \<open>generateNextSegment\<close>, run when the invocation leaves its last
  \<open>await\<close>: the store update on success, nothing beyond the log on an error, and the
  \<open>finally\<close> block in both cases.
\<close>

definition generateNextSegment_end :: "Env \<Rightarrow> Invocation \<Rightarrow> App \<Rightarrow> App" where
  "generateNextSegment_end env call a =
     (case pipelineResult env call of
        Inr (segmentData, audio) \<Rightarrow>
          a\<lparr> story := insertSegment (invIndex call) segmentData audio (story a),
             isGeneratingRef := False, isBackgroundGenerating := False \<rparr>
      | Inl e \<Rightarrow> a\<lparr> isGeneratingRef := False, isBackgroundGenerating := False \<rparr>)"

section \<open>Starting and resetting a story\<close>

definition calculateTotalSegments :: "nat \<Rightarrow> nat" where
  "calculateTotalSegments secs = max 1 ((secs + 59) div 60)"

definition outlineTimeoutMsg :: jsstring where
  "outlineTimeoutMsg = [0x6545, 0x4e8b, 0x5927, 0x7db1, 0x751f, 0x6210, 0x903e, 0x6642]"

definition initialSegmentTimeoutMsg :: jsstring where
  "initialSegmentTimeoutMsg = [0x521d, 0x59cb, 0x7ae0, 0x7bc0, 0x751f, 0x6210, 0x903e, 0x6642]"

definition initialAudioTimeoutMsg :: jsstring where
  "initialAudioTimeoutMsg = [0x521d, 0x59cb, 0x8a9e, 0x97f3, 0x751f, 0x6210, 0x903e, 0x6642]"

definition firstBeatDefault :: jsstring where
  "firstBeatDefault = [0x958b, 0x59cb, 0x9019, 0x6bb5, 0x65c5, 0x7a0b, 0x3002]"

text \<open>The two messages shown to the user: the general one and the one for a timeout.\<close>

definition startFailedMsg :: jsstring where
  "startFailedMsg =
     [0x7121, 0x6cd5, 0x555f, 0x52d5, 0x6545, 0x4e8b, 0x4e32, 0x6d41, 0x3002, 0x8acb, 0x6aa2,
      0x67e5, 0x5730, 0x9ede, 0x8cc7, 0x8a0a, 0x8207, 0x7db2, 0x8def, 0x9023, 0x7dda, 0x5f8c,
      0x91cd, 0x8a66, 0x3002]"

definition startTimedOutMsg :: jsstring where
  "startTimedOutMsg =
     [0x6545, 0x4e8b, 0x751f, 0x6210, 0x903e, 0x6642, 0x3002, 0x53ef, 0x80fd, 0x662f, 0x60a8,
      0x7684, 0x8def, 0x7a0b, 0x8f03, 0x9577, 0xff0c, 0x8acb, 0x518d, 0x8a66, 0x4e00, 0x6b21,
      0x3002]"

text \<open>Lines 163 to 166: the message chosen in the \<open>catch\<close> block from the error's message.\<close>

definition userMessage :: "jsstring \<Rightarrow> jsstring" where
  "userMessage errorMessage =
     (if errorMessage \<noteq> []
         \<and> (jsIncludes errorMessage (ascii ''timed out'')
              \<or> jsIncludes errorMessage (ascii ''timeout''))
      then startTimedOutMsg else startFailedMsg)"

text \<open>
  The \<open>try\<close> block of \<open>handleGenerateStory\<close> (lines 126 to 155): the error caught,
  or the story it stores.
\<close>

definition initialStory :: "Env \<Rightarrow> RouteDetails \<Rightarrow> jsstring + AudioStory" where
  "initialStory env details =
     (let totalEst = calculateTotalSegments (durationSeconds details)
      in case withTimeout (outliner env details totalEst) 60000 outlineTimeoutMsg of
           Inl e \<Rightarrow> Inl e
         | Inr ol \<Rightarrow>
             (let firstOutlineBeat =
                    (case ol of [] \<Rightarrow> firstBeatDefault
                              | b # _ \<Rightarrow> if b = [] then firstBeatDefault else b)
              in case withTimeout (generateSegment (model env) details 1 totalEst firstOutlineBeat [])
                        60000 initialSegmentTimeoutMsg of
                   Inl e \<Rightarrow> Inl e
                 | Inr seg1Data \<Rightarrow>
                     (case newContext env of
                        Some e \<Rightarrow> Inl e
                      | None \<Rightarrow>
                          (case withTimeout (speech env (text' seg1Data)) 100000
                                  initialAudioTimeoutMsg of
                             Inl e \<Rightarrow> Inl e
                           | Inr seg1Audio \<Rightarrow>
                               (case closeContext env of
                                  Some e \<Rightarrow> Inl e
                                | None \<Rightarrow>
                                    Inr \<lparr> totalSegmentsEstimate = totalEst, outline = ol,
                                          segments =
                                            [seg1Data\<lparr> audioBuffer := Some seg1Audio \<rparr>] \<rparr>)))))"

text \<open>
  \<open>handleGenerateStory\<close>, from the submission of a route to the end of its \<open>try\<close> or
  \<open>catch\<close> block.
\<close>

definition handleGenerateStory :: "Env \<Rightarrow> RouteDetails \<Rightarrow> App \<Rightarrow> App" where
  "handleGenerateStory env details a =
     (let a1 = a\<lparr> route := Some details, generationError := None,
                  appState := GENERATING_INITIAL_SEGMENT \<rparr>
      in case initialStory env details of
           Inr st \<Rightarrow> a1\<lparr> story := Some st, appState := READY_TO_PLAY \<rparr>
         | Inl e \<Rightarrow> a1\<lparr> appState := PLANNING, generationError := Some (userMessage e) \<rparr>)"

definition handleReset :: "App \<Rightarrow> App" where
  "handleReset a =
     a\<lparr> appState := PLANNING, route := None, story := None, currentPlayingIndex := 0,
        generationError := None, isGeneratingRef := False, isBackgroundGenerating := False \<rparr>"

text \<open>The state in which \<open>App\<close> is mounted.\<close>

definition initialApp :: App where
  "initialApp =
     \<lparr> appState = PLANNING, route = None, story = None, generationError = None,
       isGeneratingRef = False, isBackgroundGenerating = False, currentPlayingIndex = 0 \<rparr>"

section \<open>The application as a transition system\<close>

text \<open>
  The state of \<open>App\<close> together with the invocations of \<open>generateNextSegment\<close> that
  have passed their guard and not yet run their \<open>finally\<close> block. Between those two
  points an invocation touches no shared state, so each is one step at its start and one
  at its end. The events: an evaluation of the scheduler effect; the end of the
  invocation at a position of the list, in given surroundings; the reset button; a route
  submitted, with \<open>handleGenerateStory\<close> run to its end; the player reporting its
  cursor.
\<close>

record Sys =
  app :: App
  inflight :: "Invocation list"

datatype Event =
    Evaluate
  | Settle nat Env
  | Reset
  | RouteFound RouteDetails Env
  | SegmentChange nat

fun isReset :: "Event \<Rightarrow> bool" where
  "isReset Reset = True"
| "isReset _ = False"

definition evaluate :: "Sys \<Rightarrow> Sys" where
  "evaluate s =
     (case schedulerEffect (app s) of
        None \<Rightarrow> s
      | Some idx \<Rightarrow>
          (case generateNextSegment_begin idx (app s) of
             (a, None) \<Rightarrow> s\<lparr> app := a \<rparr>
           | (a, Some call) \<Rightarrow> s\<lparr> app := a, inflight := inflight s @ [call] \<rparr>))"

fun step :: "Event \<Rightarrow> Sys \<Rightarrow> Sys" where
  "step Evaluate s = evaluate s"
| "step (Settle k env) s =
     (if k < length (inflight s)
      then s\<lparr> app := generateNextSegment_end env (inflight s ! k) (app s),
              inflight := take k (inflight s) @ drop (Suc k) (inflight s) \<rparr>
      else s)"
| "step Reset s = s\<lparr> app := handleReset (app s) \<rparr>"
| "step (RouteFound details env) s = s\<lparr> app := handleGenerateStory env details (app s) \<rparr>"
| "step (SegmentChange i) s = s\<lparr> app := (app s)\<lparr> currentPlayingIndex := i \<rparr> \<rparr>"

fun run :: "Event list \<Rightarrow> Sys \<Rightarrow> Sys" where
  "run [] s = s"
| "run (e # es) s = run es (step e s)"

text \<open>No reset is pressed while an invocation is in flight.\<close>

fun resetsWhenIdle :: "Event list \<Rightarrow> Sys \<Rightarrow> bool" where
  "resetsWhenIdle [] s = True"
| "resetsWhenIdle (e # es) s =
     ((if isReset e then inflight s = [] else True) \<and> resetsWhenIdle es (step e s))"

text \<open>
  A route is submitted only while the planner takes input: \<open>RoutePlanner\<close> is locked
  when the app state is above \<open>ROUTE_CONFIRMED\<close> (\<open>RoutePlanner.tsx\<close>, line 172).
\<close>

fun isRouteFound :: "Event \<Rightarrow> bool" where
  "isRouteFound (RouteFound details env) = True"
| "isRouteFound _ = False"

fun routesWhenUnlocked :: "Event list \<Rightarrow> Sys \<Rightarrow> bool" where
  "routesWhenUnlocked [] s = True"
| "routesWhenUnlocked (e # es) s =
     ((if isRouteFound e then stateNum (appState (app s)) \<le> stateNum ROUTE_CONFIRMED else True)
      \<and> routesWhenUnlocked es (step e s))"

definition initialSys :: Sys where
  "initialSys = \<lparr> app = initialApp, inflight = [] \<rparr>"

text \<open>
  Sample surroundings: every call settles at once with a usable result (\<open>goodEnv\<close>), or
  the text model never answers (\<open>silentEnv\<close>).
\<close>

definition goodEnv :: Env where
  "goodEnv =
     \<lparr> model = (\<lambda>p. Resolves 0 (Some (ascii ''once''))),
       speech = (\<lambda>t. Resolves 0 sampleAudio),
       outliner = (\<lambda>r n. Resolves 0 (replicate n (ascii ''beat''))),
       newContext = None, closeContext = None \<rparr>"

definition silentEnv :: Env where
  "silentEnv = goodEnv\<lparr> model := (\<lambda>p. Pending) \<rparr>"


text \<open>The story that a start in \<open>goodEnv\<close> on the sample route stores.\<close>

definition startedStory :: AudioStory where
  "startedStory =
     \<lparr> totalSegmentsEstimate = 10, outline = replicate 10 (ascii ''beat''),
       segments = [\<lparr> index = 1, text' = ascii ''once'', audioBuffer = Some sampleAudio \<rparr>] \<rparr>"

section \<open>The story player\<close>

text \<open>
  The props of \<open>StoryPlayer\<close> that its handlers read. A handler is a closure of the
  render that created it, so it sees the props of that render.
\<close>

record Props =
  propStory :: AudioStory
  propBackgroundGenerating :: bool

text \<open>
  A started buffer source: the segment it plays, the offset it was started at, and the
  props seen by its \<open>onended\<close> handler.
\<close>

record Source =
  srcSegment :: StorySegment
  srcOffset :: real
  srcProps :: Props

datatype ContextState = Suspended | Running

text \<open>The \<open>useState\<close> cells and the refs of \<open>StoryPlayer\<close>.\<close>

record Player =
  isPlaying :: bool
  currentSegmentIndex :: nat
  isBuffering :: bool
  autoScroll :: bool
  audioContextRef :: "ContextState option"
  sourceRef :: "Source option"
  startTimeRef :: real
  segmentOffsetRef :: real
  indexRef :: nat

text \<open>\<open>array[i]\<close>, which is \<open>undefined\<close> out of range.\<close>

definition jsNth :: "'a list \<Rightarrow> nat \<Rightarrow> 'a option" where
  "jsNth xs i = (if i < length xs then Some (xs ! i) else None)"

text \<open>\<open>stopAudio\<close>: the handler of the source is removed, the source stopped and dropped.\<close>

definition stopAudio :: "Player \<Rightarrow> Player" where
  "stopAudio p = p\<lparr> sourceRef := None \<rparr>"

text \<open>
  \<open>playSegment\<close> (lines 78 to 109), with \<open>now\<close> the reading of the output clock at
  line 107. A missing or suspended audio context is created or resumed; the platform is
  taken to do both.
\<close>

definition playSegment :: "Props \<Rightarrow> StorySegment option \<Rightarrow> real \<Rightarrow> real \<Rightarrow> Player \<Rightarrow> Player" where
  "playSegment props segment offset now p =
     (case segment of
        None \<Rightarrow> p\<lparr> isBuffering := True \<rparr>
      | Some seg \<Rightarrow>
          (case audioBuffer seg of
             None \<Rightarrow> p\<lparr> isBuffering := True \<rparr>
           | Some ab \<Rightarrow>
               (stopAudio (p\<lparr> audioContextRef := Some Running \<rparr>))
                 \<lparr> sourceRef := Some \<lparr> srcSegment = seg, srcOffset = offset, srcProps = props \<rparr>,
                   startTimeRef := now - offset \<rparr>))"

text \<open>\<open>handleSegmentEnd\<close> (lines 111 to 127).\<close>

definition handleSegmentEnd :: "Props \<Rightarrow> real \<Rightarrow> Player \<Rightarrow> Player" where
  "handleSegmentEnd props now p =
     (let currentIndex = indexRef p;
          nextIndex = currentIndex + 1;
          p1 = p\<lparr> currentSegmentIndex := nextIndex, segmentOffsetRef := 0 \<rparr>;
          next = jsNth (segments (propStory props)) nextIndex
      in if (case next of None \<Rightarrow> False | Some seg \<Rightarrow> audioBuffer seg \<noteq> None)
         then playSegment props next 0 now p1
         else if nextIndex \<ge> totalSegmentsEstimate (propStory props)
                 \<and> \<not> propBackgroundGenerating props
              then p1\<lparr> isPlaying := False \<rparr>
              else p1\<lparr> isBuffering := True \<rparr>)"

text \<open>
  The end-of-stream event of the current source, at clock reading \<open>now\<close>: the handler
  set at lines 99 to 105. A source without a handler, or none at all, does nothing.
\<close>

definition sourceEnded :: "real \<Rightarrow> Player \<Rightarrow> Player" where
  "sourceEnded now p =
     (case sourceRef p of
        None \<Rightarrow> p
      | Some src \<Rightarrow>
          if audioContextRef p = None then p
          else
            let elapsed = now - startTimeRef p
            in (case audioBuffer (srcSegment src) of
                  None \<Rightarrow> p
                | Some ab \<Rightarrow>
                    if elapsed \<ge> duration ab - 0.5 then handleSegmentEnd (srcProps src) now p
                    else p))"


text \<open>The effect of lines 55 to 61, run when the store, the cursor or a flag changes.\<close>

definition bufferingEffect :: "Props \<Rightarrow> real \<Rightarrow> Player \<Rightarrow> Player" where
  "bufferingEffect props now p =
     (let segmentNowReady = jsNth (segments (propStory props)) (currentSegmentIndex p)
      in if isBuffering p \<and> isPlaying p
            \<and> (case segmentNowReady of None \<Rightarrow> False | Some seg \<Rightarrow> audioBuffer seg \<noteq> None)
         then playSegment props segmentNowReady 0 now (p\<lparr> isBuffering := False \<rparr>)
         else p)"

text \<open>The effect of lines 40 to 42.\<close>

definition indexRefEffect :: "Player \<Rightarrow> Player" where
  "indexRefEffect p = p\<lparr> indexRef := currentSegmentIndex p \<rparr>"

text \<open>The player as it is mounted, and sample props over a story of \<open>n\<close> segments.\<close>

definition initialPlayer :: Player where
  "initialPlayer =
     \<lparr> isPlaying = False, currentSegmentIndex = 0, isBuffering = False, autoScroll = True,
       audioContextRef = None, sourceRef = None, startTimeRef = 0, segmentOffsetRef = 0,
       indexRef = 0 \<rparr>"

definition sampleProps :: "nat \<Rightarrow> Props" where
  "sampleProps n = \<lparr> propStory = sampleStory n, propBackgroundGenerating = False \<rparr>"

section \<open>Predicates used in the properties\<close>


text \<open>The store of the current story, if there is one, is ordered.\<close>

definition storyOrdered :: "AudioStory option \<Rightarrow> bool" where
  "storyOrdered st = (case st of None \<Rightarrow> True | Some s \<Rightarrow> storeOrdered (segments s))"

text \<open>At most one invocation is in flight, and the flag is set exactly while one is.\<close>

definition mutex :: "Sys \<Rightarrow> bool" where
  "mutex s = (length (inflight s) \<le> 1 \<and> (isGeneratingRef (app s) \<longleftrightarrow> inflight s \<noteq> []))"

text \<open>Where there is a story, there is a route and the app state is \<open>READY_TO_PLAY\<close>.\<close>

definition storyReady :: "App \<Rightarrow> bool" where
  "storyReady a = (story a \<noteq> None \<longrightarrow> route a \<noteq> None \<and> appState a = READY_TO_PLAY)"




text \<open>A player in the middle of a segment of the sample story, started at clock 100.\<close>

definition playingPlayer :: Player where
  "playingPlayer =
     initialPlayer\<lparr> isPlaying := True, audioContextRef := Some Running,
       sourceRef := Some \<lparr> srcSegment = sampleSegment 1, srcOffset = 0,
                           srcProps = sampleProps 1 \<rparr>,
       startTimeRef := 100 \<rparr>"

text \<open>A player that has run out of audio at cursor 1 and waits for the next segment.\<close>

definition stalledPlayer :: Player where
  "stalledPlayer =
     playingPlayer\<lparr> currentSegmentIndex := 1, indexRef := 1, isBuffering := True \<rparr>"

section \<open>Properties of the scheduler\<close>

lemma schedulerEffect_Some_iff:
  "schedulerEffect a = Some idx \<longleftrightarrow>
     (\<exists>st. story a = Some st \<and> route a \<noteq> None
        \<and> stateNum READY_TO_PLAY \<le> stateNum (appState a)
        \<and> length (segments st) < currentPlayingIndex a + 3
        \<and> length (segments st) < totalSegmentsEstimate st
        \<and> \<not> isGeneratingRef a
        \<and> idx = length (segments st) + 1)"
  by (auto simp: schedulerEffect_def Let_def split: option.splits)

lemma sampleApp_fields [simp]:
  "story (sampleApp st n p) = Some (sampleStory n)"
  "route (sampleApp st n p) = Some sampleRoute"
  "appState (sampleApp st n p) = st"
  "isGeneratingRef (sampleApp st n p) = False"
  "currentPlayingIndex (sampleApp st n p) = p"
  by (simp_all add: sampleApp_def)

lemma sampleStory_fields [simp]:
  "length (segments (sampleStory n)) = n"
  "totalSegmentsEstimate (sampleStory n) = 10"
  by (simp_all add: sampleStory_def)

text \<open>
  C2, as stated: with playhead 2 and four segments produced no generation is triggered.
  In the code 4 < 2 + 3, so with the estimate not reached and nothing in flight the
  scheduler asks for segment 5.
\<close>

theorem C2_counterexample:
  "currentPlayingIndex (sampleApp READY_TO_PLAY 4 2) = 2
   \<and> length (segments (sampleStory 4)) = 4
   \<and> story (sampleApp READY_TO_PLAY 4 2) = Some (sampleStory 4)
   \<and> schedulerEffect (sampleApp READY_TO_PLAY 4 2) = Some 5"
  by (simp add: schedulerEffect_def)

text \<open>
  C2, amended: with lookahead 3 and playhead 2, in a ready app with no generation in flight
  and an estimate above the number of segments produced, three segments produced trigger
  the generation of index 4 and four segments produced trigger the generation of index 5;
  with five or more segments produced no generation is triggered.
\<close>

theorem C2_lookahead_boundary:
  assumes "story a = Some st" and "route a \<noteq> None"
    and "stateNum READY_TO_PLAY \<le> stateNum (appState a)"
    and "currentPlayingIndex a = 2"
  shows "(length (segments st) = 3 \<and> 3 < totalSegmentsEstimate st \<and> \<not> isGeneratingRef a
            \<longrightarrow> schedulerEffect a = Some 4)
       \<and> (length (segments st) = 4 \<and> 4 < totalSegmentsEstimate st \<and> \<not> isGeneratingRef a
            \<longrightarrow> schedulerEffect a = Some 5)
       \<and> (5 \<le> length (segments st) \<longrightarrow> schedulerEffect a = None)"
  using assms by (auto simp: schedulerEffect_def)

theorem C2_lookahead_boundary_witness:
  "schedulerEffect (sampleApp READY_TO_PLAY 3 2) = Some 4
   \<and> schedulerEffect (sampleApp READY_TO_PLAY 4 2) = Some 5
   \<and> schedulerEffect (sampleApp READY_TO_PLAY 5 2) = None"
proof -
  have "schedulerEffect (sampleApp READY_TO_PLAY 3 2) = Some 4"
    using C2_lookahead_boundary [of "sampleApp READY_TO_PLAY 3 2" "sampleStory 3"] by simp
  moreover have "schedulerEffect (sampleApp READY_TO_PLAY 4 2) = Some 5"
    using C2_lookahead_boundary [of "sampleApp READY_TO_PLAY 4 2" "sampleStory 4"] by simp
  moreover have "schedulerEffect (sampleApp READY_TO_PLAY 5 2) = None"
    using C2_lookahead_boundary [of "sampleApp READY_TO_PLAY 5 2" "sampleStory 5"] by simp
  ultimately show ?thesis by simp
qed

section \<open>Properties of the segment store\<close>

lemma set_insertBy: "set (insertBy cmp x ys) = insert x (set ys)"
  by (induction ys) auto

lemma sorted_insertBy:
  "sorted (map index ys) \<Longrightarrow> sorted (map index (insertBy byIndex x ys))"
  by (induction ys) (auto simp: byIndex_def set_insertBy)

lemma distinct_insertBy:
  "distinct (map index (insertBy byIndex x ys)) \<longleftrightarrow>
     index x \<notin> index ` set ys \<and> distinct (map index ys)"
  by (induction ys) (auto simp: set_insertBy)

lemma set_jsSort: "set (jsSort cmp xs) = set xs"
  by (induction xs) (auto simp: set_insertBy)

lemma sorted_jsSort: "sorted (map index (jsSort byIndex xs))"
  by (induction xs) (auto simp: sorted_insertBy)

lemma distinct_jsSort:
  "distinct (map index (jsSort byIndex xs)) \<longleftrightarrow> distinct (map index xs)"
  by (induction xs) (auto simp: distinct_insertBy set_jsSort)

lemma insertSegment_ordered:
  assumes "storeOrdered (segments st)" and "index segmentData = idx"
  shows "\<exists>st'. insertSegment idx segmentData audio (Some st) = Some st'
           \<and> storeOrdered (segments st')"
  using assms
  by (auto simp: insertSegment_def storeOrdered_def list_ex_iff sorted_jsSort distinct_jsSort)

lemma insertSegment_duplicate:
  "idx \<in> index ` set (segments st) \<Longrightarrow>
     insertSegment idx segmentData audio (Some st) = Some st"
  by (auto simp: insertSegment_def list_ex_iff)

lemma insertAll_ordered:
  "storeOrdered (segments st) \<Longrightarrow> \<forall>(idx, sd, ab) \<in> set ins. index sd = idx \<Longrightarrow>
     \<exists>st'. insertAll ins (Some st) = Some st' \<and> storeOrdered (segments st')"
proof (induction ins arbitrary: st)
  case Nil
  then show ?case by simp
next
  case (Cons entry rest)
  obtain idx sd ab where entry: "entry = (idx, sd, ab)" by (cases entry)
  with Cons.prems have "index sd = idx" by simp
  with Cons.prems(1) obtain st1 where
    st1: "insertSegment idx sd ab (Some st) = Some st1" "storeOrdered (segments st1)"
    using insertSegment_ordered by blast
  from Cons.prems(2) have "\<forall>(idx, sd, ab) \<in> set rest. index sd = idx" by simp
  with Cons.IH st1(2) obtain st' where
    "insertAll rest (Some st1) = Some st'" "storeOrdered (segments st')" by blast
  with entry st1(1) show ?case by simp
qed

text \<open>The text stage labels its result with the index it was asked for.\<close>

lemma generateSegment_index:
  "generateSegment m r idx n beat prev = Resolves t sd \<Longrightarrow> index sd = idx"
  by (auto simp: generateSegment_def split: settle.splits option.splits list.splits)

lemma textStage_index: "textStage env call = Inr sd \<Longrightarrow> index sd = invIndex call"
  by (auto simp: textStage_def withTimeout_def Let_def
        split: settle.splits if_splits dest: generateSegment_index)

lemma pipelineResult_Inr_iff:
  "pipelineResult env call = Inr (sd, ab) \<longleftrightarrow>
     textStage env call = Inr sd \<and> newContext env = None
       \<and> audioStage env call sd = Inr ab \<and> closeContext env = None"
  by (auto simp: pipelineResult_def split: sum.splits option.splits)

lemma end_story:
  "story (generateNextSegment_end env call a) =
     (case pipelineResult env call of
        Inl e \<Rightarrow> story a
      | Inr (sd, ab) \<Rightarrow> insertSegment (invIndex call) sd ab (story a))"
  by (simp add: generateNextSegment_end_def split: sum.splits prod.splits)

lemma storyOrdered_insertSegment:
  "storyOrdered st \<Longrightarrow> index sd = idx \<Longrightarrow> storyOrdered (insertSegment idx sd ab st)"
proof (cases st)
  case None
  then show ?thesis by (simp add: storyOrdered_def insertSegment_def)
next
  case (Some s)
  assume "storyOrdered st" and "index sd = idx"
  with Some obtain s' where
    "insertSegment idx sd ab (Some s) = Some s'" "storeOrdered (segments s')"
    using insertSegment_ordered [of s sd idx ab] by (auto simp: storyOrdered_def)
  with Some show ?thesis by (simp add: storyOrdered_def)
qed

lemma storyOrdered_end:
  "storyOrdered (story a) \<Longrightarrow> storyOrdered (story (generateNextSegment_end env call a))"
proof (cases "pipelineResult env call")
  case (Inl e)
  assume "storyOrdered (story a)"
  with Inl show ?thesis by (simp add: end_story)
next
  case (Inr r)
  assume ord: "storyOrdered (story a)"
  obtain sd ab where r: "r = (sd, ab)" by (cases r)
  with Inr have "index sd = invIndex call"
    using textStage_index by (auto simp: pipelineResult_Inr_iff)
  with ord Inr r show ?thesis by (simp add: end_story storyOrdered_insertSegment)
qed

lemma initialStory_segments:
  "initialStory env details = Inr st \<Longrightarrow>
     \<exists>seg. segments st = [seg] \<and> audioBuffer seg \<noteq> None"
  by (auto simp: initialStory_def Let_def split: sum.splits option.splits)

lemma begin_app:
  "generateNextSegment_begin idx a = (a1, r) \<Longrightarrow>
     story a1 = story a \<and> route a1 = route a \<and> appState a1 = appState a
       \<and> currentPlayingIndex a1 = currentPlayingIndex a"
  by (auto simp: generateNextSegment_begin_def split: option.splits if_splits)

lemma evaluate_story: "story (app (evaluate s)) = story (app s)"
proof (cases "schedulerEffect (app s)")
  case None
  then show ?thesis by (simp add: evaluate_def)
next
  case (Some idx)
  obtain a1 r where b: "generateNextSegment_begin idx (app s) = (a1, r)"
    by (cases "generateNextSegment_begin idx (app s)")
  then have "story a1 = story (app s)" by (simp add: begin_app)
  with Some b show ?thesis by (cases r) (simp_all add: evaluate_def)
qed

lemma storyOrdered_step:
  assumes "storyOrdered (story (app s))"
  shows "storyOrdered (story (app (step e s)))"
proof (cases e)
  case Evaluate
  with assms show ?thesis by (simp add: evaluate_story)
next
  case (Settle k env)
  with assms show ?thesis by (simp add: storyOrdered_end)
next
  case Reset
  then show ?thesis by (simp add: handleReset_def storyOrdered_def)
next
  case (RouteFound details env)
  show ?thesis
  proof (cases "initialStory env details")
    case (Inl err)
    with RouteFound assms show ?thesis by (simp add: handleGenerateStory_def Let_def)
  next
    case (Inr st)
    then obtain seg where "segments st = [seg]" "audioBuffer seg \<noteq> None"
      using initialStory_segments by blast
    with Inr RouteFound show ?thesis
      by (simp add: handleGenerateStory_def Let_def storyOrdered_def storeOrdered_def)
  qed
next
  case (SegmentChange i)
  with assms show ?thesis by simp
qed

lemma storyOrdered_run:
  "storyOrdered (story (app s)) \<Longrightarrow> storyOrdered (story (app (run es s)))"
  by (induction es arbitrary: s) (simp_all add: storyOrdered_step)

text \<open>
  C4: starting from an ordered store, any run of insertions, each result carrying the index
  it was requested for (as the text stage builds it), leaves the store sorted by index
  with no index twice; an insertion at an index already present returns the story
  unchanged; and the story of the application is ordered in every state it can reach.
\<close>

theorem C4_store_ordered:
  assumes "storeOrdered (segments st)" and "\<forall>(idx, sd, ab) \<in> set ins. index sd = idx"
  shows "(\<exists>st'. insertAll ins (Some st) = Some st' \<and> storeOrdered (segments st'))
       \<and> (i \<in> index ` set (segments st) \<longrightarrow>
            insertSegment i segmentData audio (Some st) = Some st)
       \<and> storyOrdered (story (app (run es initialSys)))"
proof -
  have "storyOrdered (story (app initialSys))"
    by (simp add: initialSys_def initialApp_def storyOrdered_def)
  then have "storyOrdered (story (app (run es initialSys)))"
    by (rule storyOrdered_run)
  with assms show ?thesis
    using insertAll_ordered insertSegment_duplicate by blast
qed

theorem C4_store_ordered_witness:
  "storeOrdered (segments (sampleStory 1))
   \<and> (\<exists>st'. insertAll [(3, sampleSegment 3, sampleAudio), (2, sampleSegment 2, sampleAudio),
                        (3, sampleSegment 3, sampleAudio)] (Some (sampleStory 1)) = Some st'
           \<and> storeOrdered (segments st'))
   \<and> insertSegment 1 (sampleSegment 1) sampleAudio (Some (sampleStory 1))
       = Some (sampleStory 1)"
proof -
  have ordered: "storeOrdered (segments (sampleStory 1))"
    by (simp add: storeOrdered_def sampleStory_def)
  have labelled: "\<forall>(idx, sd, ab) \<in> set [(3, sampleSegment 3, sampleAudio),
      (2, sampleSegment 2, sampleAudio), (3, sampleSegment 3, sampleAudio)]. index sd = idx"
    by (simp add: sampleSegment_def)
  have present: "1 \<in> index ` set (segments (sampleStory 1))"
    by (simp add: sampleStory_def sampleSegment_def)
  from C4_store_ordered [OF ordered labelled, of 1 "sampleSegment 1" sampleAudio "[]"]
    ordered present
  show ?thesis by simp
qed

section \<open>Properties of the generation pipeline\<close>

lemma end_releases: "\<not> isGeneratingRef (generateNextSegment_end env call a)"
  by (simp add: generateNextSegment_end_def split: sum.splits prod.splits)

lemma begin_Some:
  "generateNextSegment_begin idx a = (a1, Some call) \<Longrightarrow>
     a1 = a\<lparr> isGeneratingRef := True, isBackgroundGenerating := True \<rparr> \<and> invIndex call = idx
       \<and> route a = Some (invRoute call) \<and> story a = Some (invStory call)
       \<and> \<not> isGeneratingRef a"
  by (auto simp: generateNextSegment_begin_def split: option.splits if_splits)

lemma begin_None: "generateNextSegment_begin idx a = (a1, None) \<Longrightarrow> a1 = a"
  by (auto simp: generateNextSegment_begin_def split: option.splits if_splits)

lemma scheduler_idle: "schedulerEffect a = Some idx \<Longrightarrow> \<not> isGeneratingRef a"
  by (auto simp: schedulerEffect_def Let_def split: option.splits if_splits)

lemma mutex_evaluate: "mutex s \<Longrightarrow> mutex (evaluate s)"
proof (cases "schedulerEffect (app s)")
  case None
  assume "mutex s"
  with None show ?thesis by (simp add: evaluate_def)
next
  case (Some idx)
  assume m: "mutex s"
  from Some have "\<not> isGeneratingRef (app s)" by (rule scheduler_idle)
  with m have empty: "inflight s = []" by (simp add: mutex_def)
  obtain a1 r where b: "generateNextSegment_begin idx (app s) = (a1, r)"
    by (cases "generateNextSegment_begin idx (app s)")
  show ?thesis
  proof (cases r)
    case None
    with b have "a1 = app s" by (simp add: begin_None)
    with None b Some m show ?thesis by (simp add: evaluate_def mutex_def)
  next
    case (Some call)
    with b have "isGeneratingRef a1" using begin_Some by fastforce
    with Some b \<open>schedulerEffect (app s) = Some idx\<close> empty show ?thesis
      by (simp add: evaluate_def mutex_def)
  qed
qed

lemma mutex_step:
  assumes "mutex s" and "isReset e \<Longrightarrow> inflight s = []"
  shows "mutex (step e s)"
proof (cases e)
  case Evaluate
  with assms(1) show ?thesis by (simp add: mutex_evaluate)
next
  case (Settle k env)
  show ?thesis
  proof (cases "k < length (inflight s)")
    case True
    with assms(1) have "k = 0" "length (inflight s) = 1" by (auto simp: mutex_def)
    with Settle True show ?thesis by (simp add: mutex_def end_releases)
  next
    case False
    with Settle assms(1) show ?thesis by simp
  qed
next
  case Reset
  with assms show ?thesis by (simp add: mutex_def handleReset_def)
next
  case (RouteFound details env)
  with assms(1) show ?thesis
    by (simp add: mutex_def handleGenerateStory_def Let_def split: sum.splits)
next
  case (SegmentChange i)
  with assms(1) show ?thesis by (simp add: mutex_def)
qed

lemma mutex_run: "mutex s \<Longrightarrow> resetsWhenIdle es s \<Longrightarrow> mutex (run es s)"
proof (induction es arbitrary: s)
  case Nil
  then show ?case by simp
next
  case (Cons e es)
  from Cons.prems have "mutex (step e s)" by (auto intro: mutex_step split: if_splits)
  moreover from Cons.prems have "resetsWhenIdle es (step e s)" by simp
  ultimately show ?case using Cons.IH by simp
qed

lemma good_start:
  "handleGenerateStory goodEnv sampleRoute a =
     a\<lparr> route := Some sampleRoute, generationError := None, appState := READY_TO_PLAY,
        story := Some \<lparr> totalSegmentsEstimate = 10, outline = replicate 10 (ascii ''beat''),
                        segments = [\<lparr> index = 1, text' = ascii ''once'',
                                      audioBuffer = Some sampleAudio \<rparr>] \<rparr> \<rparr>"
  by (simp add: handleGenerateStory_def initialStory_def goodEnv_def sampleRoute_def
        withTimeout_def generateSegment_def calculateTotalSegments_def jsTrim_def
        isWhiteSpace_def ascii_def)


text \<open>
  C3, as stated: at most one invocation of the pipeline is in flight at every reachable
  state. The reset button clears the flag while an invocation is still waiting for its
  collaborators; after a new story has started the scheduler dispatches a second one, and
  two are in flight.
\<close>

theorem C3_counterexample:
  "length (inflight (run [RouteFound sampleRoute goodEnv, Evaluate, Reset,
                          RouteFound sampleRoute goodEnv, Evaluate] initialSys)) = 2"
  by (simp add: good_start initialSys_def initialApp_def evaluate_def schedulerEffect_def
        generateNextSegment_begin_def handleReset_def)

text \<open>
  C3, amended: as long as the reset button is not pressed while an invocation is in flight,
  at most one invocation of the pipeline is in flight at every reachable state, and the
  flag is set exactly while one is. An invocation takes the flag, which must be free,
  before its text stage is dispatched, and its end releases the flag whatever the
  surroundings did: success, an error of either stage, or a timeout.
\<close>

theorem C3_single_flight:
  assumes "mutex s" and "resetsWhenIdle es s"
  shows "mutex (run es s)
       \<and> \<not> isGeneratingRef (generateNextSegment_end env call a)
       \<and> (generateNextSegment_begin idx a = (a1, Some call') \<longrightarrow>
            \<not> isGeneratingRef a \<and> isGeneratingRef a1)"
proof -
  have "generateNextSegment_begin idx a = (a1, Some call') \<longrightarrow>
          \<not> isGeneratingRef a \<and> isGeneratingRef a1"
    using begin_Some by fastforce
  with assms show ?thesis by (simp add: mutex_run end_releases)
qed

theorem C3_single_flight_witness:
  "mutex initialSys
   \<and> resetsWhenIdle [RouteFound sampleRoute goodEnv, Evaluate, Settle 0 silentEnv, Reset,
                      RouteFound sampleRoute goodEnv, Evaluate] initialSys
   \<and> mutex (run [RouteFound sampleRoute goodEnv, Evaluate, Settle 0 silentEnv, Reset,
                  RouteFound sampleRoute goodEnv, Evaluate] initialSys)"
proof -
  have start: "mutex initialSys"
    by (simp add: mutex_def initialSys_def initialApp_def)
  have quiet: "resetsWhenIdle [RouteFound sampleRoute goodEnv, Evaluate, Settle 0 silentEnv,
      Reset, RouteFound sampleRoute goodEnv, Evaluate] initialSys"
    by (simp add: good_start initialSys_def initialApp_def evaluate_def schedulerEffect_def
          generateNextSegment_begin_def)
  from C3_single_flight [OF start quiet] start quiet show ?thesis by simp
qed











section \<open>The scheduler in the states the application reaches\<close>

lemma insertSegment_None: "insertSegment idx sd ab st = None \<longleftrightarrow> st = None"
  by (simp add: insertSegment_def split: option.splits)

lemma end_fields:
  "route (generateNextSegment_end env call a) = route a
   \<and> appState (generateNextSegment_end env call a) = appState a
   \<and> (story (generateNextSegment_end env call a) = None \<longleftrightarrow> story a = None)"
  by (simp add: generateNextSegment_end_def insertSegment_None split: sum.splits prod.splits)

lemma storyReady_end: "storyReady a \<Longrightarrow> storyReady (generateNextSegment_end env call a)"
  using end_fields [of env call a] by (simp add: storyReady_def)

lemma storyReady_evaluate: "storyReady (app s) \<Longrightarrow> storyReady (app (evaluate s))"
proof (cases "schedulerEffect (app s)")
  case None
  assume "storyReady (app s)"
  with None show ?thesis by (simp add: evaluate_def)
next
  case (Some idx)
  assume ready: "storyReady (app s)"
  obtain a1 r where b: "generateNextSegment_begin idx (app s) = (a1, r)"
    by (cases "generateNextSegment_begin idx (app s)")
  then have "story a1 = story (app s) \<and> route a1 = route (app s)
      \<and> appState a1 = appState (app s)"
    by (simp add: begin_app)
  with ready have "storyReady a1" by (simp add: storyReady_def)
  with Some b show ?thesis by (cases r) (simp_all add: evaluate_def)
qed

lemma storyReady_start:
  assumes "story a = None"
  shows "storyReady (handleGenerateStory env details a)"
  using assms by (simp add: handleGenerateStory_def Let_def storyReady_def split: sum.splits)

lemma storyReady_step:
  assumes "storyReady (app s)"
    and "isRouteFound e \<Longrightarrow> stateNum (appState (app s)) \<le> stateNum ROUTE_CONFIRMED"
  shows "storyReady (app (step e s))"
proof (cases e)
  case Evaluate
  with assms(1) show ?thesis by (simp add: storyReady_evaluate)
next
  case (Settle k env)
  with assms(1) show ?thesis by (simp add: storyReady_end)
next
  case Reset
  then show ?thesis by (simp add: handleReset_def storyReady_def)
next
  case (RouteFound details env)
  with assms(2) have "appState (app s) \<noteq> READY_TO_PLAY" by auto
  with assms(1) have "story (app s) = None" by (auto simp: storyReady_def)
  with RouteFound show ?thesis by (simp add: storyReady_start)
next
  case (SegmentChange i)
  with assms(1) show ?thesis by (simp add: storyReady_def)
qed

lemma storyReady_run:
  "storyReady (app s) \<Longrightarrow> routesWhenUnlocked es s \<Longrightarrow> storyReady (app (run es s))"
proof (induction es arbitrary: s)
  case Nil
  then show ?case by simp
next
  case (Cons e es)
  from Cons.prems have "storyReady (app (step e s))"
    by (auto intro: storyReady_step split: if_splits)
  moreover from Cons.prems have "routesWhenUnlocked es (step e s)" by simp
  ultimately show ?case using Cons.IH by simp
qed

lemma reset_restart:
  "run [RouteFound sampleRoute goodEnv, Evaluate, Reset, RouteFound sampleRoute goodEnv]
       initialSys
     = \<lparr> app = \<lparr> appState = READY_TO_PLAY, route = Some sampleRoute,
                 story = Some startedStory, generationError = None,
                 isGeneratingRef = False, isBackgroundGenerating = False,
                 currentPlayingIndex = 0 \<rparr>,
         inflight = [\<lparr> invIndex = 2, invRoute = sampleRoute, invStory = startedStory \<rparr>] \<rparr>"
  by (simp add: good_start initialSys_def initialApp_def evaluate_def schedulerEffect_def
        generateNextSegment_begin_def handleReset_def startedStory_def)

text \<open>
  C1, as stated: a generation is requested exactly when fewer segments than playhead + 3
  and than the estimate have been produced and no generation is in flight. Start a story,
  let the scheduler dispatch the generation of index 2, press reset while it is awaited,
  and start a story again, each route submitted while the planner is unlocked: the earlier
  generation is still in flight, and the scheduler requests index 2 of the new story.
\<close>

theorem C1_counterexample:
  "routesWhenUnlocked
     [RouteFound sampleRoute goodEnv, Evaluate, Reset, RouteFound sampleRoute goodEnv] initialSys
   \<and> inflight (run [RouteFound sampleRoute goodEnv, Evaluate, Reset,
                     RouteFound sampleRoute goodEnv] initialSys)
       = [\<lparr> invIndex = 2, invRoute = sampleRoute, invStory = startedStory \<rparr>]
   \<and> story (app (run [RouteFound sampleRoute goodEnv, Evaluate, Reset,
                       RouteFound sampleRoute goodEnv] initialSys)) = Some startedStory
   \<and> schedulerEffect (app (run [RouteFound sampleRoute goodEnv, Evaluate, Reset,
                                 RouteFound sampleRoute goodEnv] initialSys)) = Some 2"
proof -
  have unlocked: "routesWhenUnlocked
      [RouteFound sampleRoute goodEnv, Evaluate, Reset, RouteFound sampleRoute goodEnv] initialSys"
    by (simp add: good_start initialSys_def initialApp_def evaluate_def schedulerEffect_def
          generateNextSegment_begin_def handleReset_def)
  have waiting: "inflight (run [RouteFound sampleRoute goodEnv, Evaluate, Reset,
                     RouteFound sampleRoute goodEnv] initialSys)
       = [\<lparr> invIndex = 2, invRoute = sampleRoute, invStory = startedStory \<rparr>]"
    unfolding reset_restart by simp
  have stored: "story (app (run [RouteFound sampleRoute goodEnv, Evaluate, Reset,
                       RouteFound sampleRoute goodEnv] initialSys)) = Some startedStory"
    unfolding reset_restart by simp
  have requested: "schedulerEffect (app (run [RouteFound sampleRoute goodEnv, Evaluate, Reset,
                                 RouteFound sampleRoute goodEnv] initialSys)) = Some 2"
    unfolding reset_restart by (simp add: schedulerEffect_def startedStory_def)
  from unlocked waiting stored requested show ?thesis by blast
qed

text \<open>
  C1, amended: in every state that the application reaches from its mount, routes being
  submitted only while the planner is unlocked, and in which there is a story, an
  evaluation of the scheduler requests a generation exactly when the number of segments
  produced is below playhead + 3 and below the estimate and the in-flight flag
  \<open>isGeneratingRef\<close> is clear; the index requested is that number plus one. As long as
  reset has not been pressed while a generation was in flight, the flag is clear exactly
  when no generation is in flight, so that on such runs the request is made exactly when
  the two bounds hold and no generation is in flight. No request is made once the number
  of segments produced equals the estimate.
\<close>

theorem C1_scheduler_rule:
  assumes "routesWhenUnlocked es initialSys"
    and "story (app (run es initialSys)) = Some st"
  shows "(schedulerEffect (app (run es initialSys)) = Some idx \<longleftrightarrow>
            length (segments st) < currentPlayingIndex (app (run es initialSys)) + 3
            \<and> length (segments st) < totalSegmentsEstimate st
            \<and> \<not> isGeneratingRef (app (run es initialSys))
            \<and> idx = length (segments st) + 1)
       \<and> (resetsWhenIdle es initialSys \<longrightarrow>
            (isGeneratingRef (app (run es initialSys)) \<longleftrightarrow> inflight (run es initialSys) \<noteq> [])
            \<and> (schedulerEffect (app (run es initialSys)) = Some idx \<longleftrightarrow>
                  length (segments st) < currentPlayingIndex (app (run es initialSys)) + 3
                  \<and> length (segments st) < totalSegmentsEstimate st
                  \<and> inflight (run es initialSys) = []
                  \<and> idx = length (segments st) + 1))
       \<and> (length (segments st) = totalSegmentsEstimate st \<longrightarrow>
            schedulerEffect (app (run es initialSys)) = None)"
proof -
  have "storyReady (app initialSys)"
    by (simp add: storyReady_def initialSys_def initialApp_def)
  from this assms(1) have "storyReady (app (run es initialSys))" by (rule storyReady_run)
  with assms(2) have ready: "route (app (run es initialSys)) \<noteq> None"
    "appState (app (run es initialSys)) = READY_TO_PLAY"
    by (simp_all add: storyReady_def)
  with assms(2) have rule: "schedulerEffect (app (run es initialSys)) = Some idx \<longleftrightarrow>
            length (segments st) < currentPlayingIndex (app (run es initialSys)) + 3
            \<and> length (segments st) < totalSegmentsEstimate st
            \<and> \<not> isGeneratingRef (app (run es initialSys))
            \<and> idx = length (segments st) + 1"
    by (simp add: schedulerEffect_Some_iff)
  have flag: "isGeneratingRef (app (run es initialSys)) \<longleftrightarrow> inflight (run es initialSys) \<noteq> []"
    if "resetsWhenIdle es initialSys"
  proof -
    have "mutex initialSys" by (simp add: mutex_def initialSys_def initialApp_def)
    from this that have "mutex (run es initialSys)" by (rule mutex_run)
    then show ?thesis by (simp add: mutex_def)
  qed
  from assms(2) have full: "length (segments st) = totalSegmentsEstimate st \<longrightarrow>
      schedulerEffect (app (run es initialSys)) = None"
    by (simp add: schedulerEffect_def)
  from rule flag full show ?thesis by auto
qed

theorem C1_scheduler_rule_witness:
  "routesWhenUnlocked [RouteFound sampleRoute goodEnv] initialSys
   \<and> resetsWhenIdle [RouteFound sampleRoute goodEnv] initialSys
   \<and> story (app (run [RouteFound sampleRoute goodEnv] initialSys)) = Some startedStory
   \<and> inflight (run [RouteFound sampleRoute goodEnv] initialSys) = []
   \<and> schedulerEffect (app (run [RouteFound sampleRoute goodEnv] initialSys)) = Some 2"
proof -
  have unlocked: "routesWhenUnlocked [RouteFound sampleRoute goodEnv] initialSys"
    by (simp add: initialSys_def initialApp_def)
  have idle: "resetsWhenIdle [RouteFound sampleRoute goodEnv] initialSys"
    by simp
  have stored: "story (app (run [RouteFound sampleRoute goodEnv] initialSys)) = Some startedStory"
    by (simp add: good_start initialSys_def startedStory_def)
  have none: "inflight (run [RouteFound sampleRoute goodEnv] initialSys) = []"
    by (simp add: initialSys_def)
  have playhead: "currentPlayingIndex (app (run [RouteFound sampleRoute goodEnv] initialSys)) = 0"
    by (simp add: good_start initialSys_def initialApp_def)
  have sizes: "length (segments startedStory) = 1" "totalSegmentsEstimate startedStory = 10"
    by (simp_all add: startedStory_def)
  from C1_scheduler_rule [OF unlocked stored, of 2] idle none playhead sizes
  have "schedulerEffect (app (run [RouteFound sampleRoute goodEnv] initialSys)) = Some 2"
    by simp
  with unlocked idle stored none show ?thesis by blast
qed

section \<open>Properties of the text stage\<close>




lemma length_jsJoin:
  "length (jsJoin sep ts) = sum_list (map length ts) + length sep * (length ts - 1)"
  by (induction sep ts rule: jsJoin.induct) simp_all

text \<open>
  Inside \<open>generateSegment\<close> the context it was given is cut once more, to its last 1000
  code units, before it goes into the prompt of the model.
\<close>

lemma contextPrompt_tail:
  "segmentIndex \<noteq> 1 \<Longrightarrow>
     contextPrompt segmentIndex previousContext = Some (jsSlice (- 1000) previousContext)"
  by (simp add: contextPrompt_def)




section \<open>Properties of the story start\<close>

lemma start_failure_aborts:
  assumes "initialStory env details = Inl e"
  shows "appState (handleGenerateStory env details a) = PLANNING
       \<and> story (handleGenerateStory env details a) = story a
       \<and> route (handleGenerateStory env details a) = Some details
       \<and> generationError (handleGenerateStory env details a) = Some (userMessage e)"
  using assms by (simp add: handleGenerateStory_def Let_def)

lemma userMessage_cases: "userMessage e = startFailedMsg \<or> userMessage e = startTimedOutMsg"
  by (simp add: userMessage_def)

lemma timeout_messages_unrecognised:
  "userMessage outlineTimeoutMsg = startFailedMsg"
  "userMessage initialSegmentTimeoutMsg = startFailedMsg"
  "userMessage initialAudioTimeoutMsg = startFailedMsg"
  by (simp_all add: userMessage_def outlineTimeoutMsg_def initialSegmentTimeoutMsg_def
        initialAudioTimeoutMsg_def ascii_def)

text \<open>
  C7, at the input where the text model does not answer within 60 seconds: the start is
  aborted, no story is stored and the app is back in \<open>PLANNING\<close> with a message, as the
  claim says; but the message is the general one, not the one for a timeout. The
  \<open>catch\<close> block looks for the words "timed out" or "timeout" in the error's message,
  and the message that \<open>withTimeout\<close> was given is Chinese.
\<close>

theorem C7_text_timeout_message:
  "initialStory silentEnv sampleRoute = Inl initialSegmentTimeoutMsg
   \<and> appState (handleGenerateStory silentEnv sampleRoute initialApp) = PLANNING
   \<and> story (handleGenerateStory silentEnv sampleRoute initialApp) = None
   \<and> generationError (handleGenerateStory silentEnv sampleRoute initialApp)
       = Some startFailedMsg
   \<and> startFailedMsg \<noteq> startTimedOutMsg"
proof -
  have r: "initialStory silentEnv sampleRoute = Inl initialSegmentTimeoutMsg"
    by (simp add: initialStory_def silentEnv_def goodEnv_def sampleRoute_def withTimeout_def
          generateSegment_def calculateTotalSegments_def)
  have d: "startFailedMsg \<noteq> startTimedOutMsg"
    by (simp add: startFailedMsg_def startTimedOutMsg_def)
  from r d show ?thesis
    by (simp add: handleGenerateStory_def Let_def initialApp_def
          timeout_messages_unrecognised)
qed

section \<open>Properties of the story player\<close>

lemma sampleStory_nth:
  "i < n \<Longrightarrow> jsNth (segments (sampleStory n)) i = Some (sampleSegment (Suc i))"
  by (simp add: jsNth_def sampleStory_def del: upt_Suc)

lemma sampleSegment_audio [simp]: "audioBuffer (sampleSegment i) = Some sampleAudio"
  by (simp add: sampleSegment_def)

lemma handleSegmentEnd_cursor:
  "currentSegmentIndex (handleSegmentEnd props now p) = indexRef p + 1"
  by (simp add: handleSegmentEnd_def playSegment_def stopAudio_def Let_def
        split: option.splits)

lemma handleSegmentEnd_buffers:
  assumes "jsNth (segments (propStory props)) (indexRef p + 1) = None"
    and "indexRef p + 1 < totalSegmentsEstimate (propStory props)
           \<or> propBackgroundGenerating props"
  shows "isBuffering (handleSegmentEnd props now p)
       \<and> isPlaying (handleSegmentEnd props now p) = isPlaying p
       \<and> currentSegmentIndex (handleSegmentEnd props now p) = indexRef p + 1"
  using assms by (auto simp: handleSegmentEnd_def Let_def)

text \<open>
  C8: when the player is buffering with the intent to play, and the store of the props
  holds audio for the segment at the cursor, the effect that runs on the change of the
  store ends the buffering and starts that segment at offset 0, the start time being the
  clock reading; the cursor and the intent to play are as before.
\<close>

theorem C8_buffering_released:
  assumes "isBuffering p" and "isPlaying p"
    and "jsNth (segments (propStory props)) (currentSegmentIndex p) = Some seg"
    and "audioBuffer seg = Some ab"
  shows "\<not> isBuffering (bufferingEffect props now p)
       \<and> isPlaying (bufferingEffect props now p)
       \<and> sourceRef (bufferingEffect props now p)
           = Some \<lparr> srcSegment = seg, srcOffset = 0, srcProps = props \<rparr>
       \<and> startTimeRef (bufferingEffect props now p) = now
       \<and> currentSegmentIndex (bufferingEffect props now p) = currentSegmentIndex p"
  using assms by (simp add: bufferingEffect_def playSegment_def stopAudio_def)

theorem C8_buffering_released_witness:
  "isBuffering stalledPlayer \<and> isPlaying stalledPlayer
   \<and> jsNth (segments (propStory (sampleProps 2))) (currentSegmentIndex stalledPlayer)
       = Some (sampleSegment 2)
   \<and> \<not> isBuffering (bufferingEffect (sampleProps 2) 200 stalledPlayer)
   \<and> sourceRef (bufferingEffect (sampleProps 2) 200 stalledPlayer)
       = Some \<lparr> srcSegment = sampleSegment 2, srcOffset = 0, srcProps = sampleProps 2 \<rparr>
   \<and> startTimeRef (bufferingEffect (sampleProps 2) 200 stalledPlayer) = 200"
proof -
  have buffering: "isBuffering stalledPlayer" and playing: "isPlaying stalledPlayer"
    by (simp_all add: stalledPlayer_def playingPlayer_def)
  have ready: "jsNth (segments (propStory (sampleProps 2))) (currentSegmentIndex stalledPlayer)
      = Some (sampleSegment 2)"
    by (simp add: stalledPlayer_def sampleProps_def sampleStory_nth numeral_2_eq_2)
  have audio: "audioBuffer (sampleSegment 2) = Some sampleAudio" by simp
  from C8_buffering_released [OF buffering playing ready audio, of 200]
    buffering playing ready
  show ?thesis by simp
qed

text \<open>
  C9: an end-of-stream event of the current source at a clock reading less than the
  segment's duration minus 0.5 seconds after the recorded start leaves the whole player
  state as it is; the event changes the state only when that elapsed time is at least the
  duration minus 0.5, and then it is handled as the end of the segment.
\<close>

theorem C9_early_end_ignored:
  assumes "sourceRef p = Some src" and "audioBuffer (srcSegment src) = Some ab"
  shows "(now - startTimeRef p < duration ab - 0.5 \<longrightarrow> sourceEnded now p = p)
       \<and> (sourceEnded now p \<noteq> p \<longrightarrow> now - startTimeRef p \<ge> duration ab - 0.5)
       \<and> (audioContextRef p \<noteq> None \<and> now - startTimeRef p \<ge> duration ab - 0.5 \<longrightarrow>
            sourceEnded now p = handleSegmentEnd (srcProps src) now p
            \<and> currentSegmentIndex (sourceEnded now p) = indexRef p + 1)"
  using assms by (auto simp: sourceEnded_def Let_def handleSegmentEnd_cursor)

theorem C9_early_end_ignored_witness:
  "sourceRef playingPlayer
     = Some \<lparr> srcSegment = sampleSegment 1, srcOffset = 0, srcProps = sampleProps 1 \<rparr>
   \<and> 130 - startTimeRef playingPlayer < duration sampleAudio - 0.5
   \<and> sourceEnded 130 playingPlayer = playingPlayer
   \<and> currentSegmentIndex (sourceEnded 160 playingPlayer) = 1"
proof -
  have src: "sourceRef playingPlayer
      = Some \<lparr> srcSegment = sampleSegment 1, srcOffset = 0, srcProps = sampleProps 1 \<rparr>"
    by (simp add: playingPlayer_def)
  have audio: "audioBuffer (srcSegment
      \<lparr> srcSegment = sampleSegment 1, srcOffset = 0, srcProps = sampleProps 1 \<rparr>)
      = Some sampleAudio"
    by simp
  have early: "130 - startTimeRef playingPlayer < duration sampleAudio - 0.5"
    by (simp add: playingPlayer_def sampleAudio_def)
  have late: "audioContextRef playingPlayer \<noteq> None
      \<and> 160 - startTimeRef playingPlayer \<ge> duration sampleAudio - 0.5"
    by (simp add: playingPlayer_def sampleAudio_def)
  have idx: "indexRef playingPlayer = 0"
    by (simp add: playingPlayer_def initialPlayer_def)
  from C9_early_end_ignored [OF src audio, of 130] early
  have ignored: "sourceEnded 130 playingPlayer = playingPlayer" by blast
  from C9_early_end_ignored [OF src audio, of 160] late
  have "currentSegmentIndex (sourceEnded 160 playingPlayer) = indexRef playingPlayer + 1"
    by blast
  with idx have "currentSegmentIndex (sourceEnded 160 playingPlayer) = 1" by simp
  with src early ignored show ?thesis by blast
qed



end
